theory Spec2Isabelle
  imports Complex_Main
begin

section \<open>Shared data model of \<open>nimare/diagnostics.py\<close>\<close>

text \<open>
  Study identifiers are Python strings. A row of a coordinate table carries the study id
  and the world-space position (columns \<open>id\<close>, \<open>x\<close>, \<open>y\<close>, \<open>z\<close>; the other columns of
  the table are never read by the diagnostics).
\<close>

type_synonym study_id = string

datatype coord_row = CoordRow (row_id: study_id) (row_x: real) (row_y: real) (row_z: real)

definition row_xyz :: "coord_row \<Rightarrow> real \<times> real \<times> real" where
  "row_xyz r = (row_x r, row_y r, row_z r)"

text \<open>
  A three-dimensional numpy array is a nested list, indexed \<open>arr ! i ! j ! k\<close>.
  \<open>ndindex\<close> lists the index triples in C order, the order of \<open>np.where\<close>;
  \<open>ravel\<close> lists the entries in the same order.
\<close>

type_synonym 'a array3 = "'a list list list"

definition ndindex :: "'a array3 \<Rightarrow> (nat \<times> nat \<times> nat) list" where
  "ndindex arr =
     concat (map (\<lambda>i. concat (map (\<lambda>j. map (\<lambda>k. (i, j, k)) [0..<length (arr ! i ! j)])
                                   [0..<length (arr ! i)]))
                 [0..<length arr])"

definition ravel :: "'a array3 \<Rightarrow> 'a list" where
  "ravel arr = concat (concat arr)"

text \<open>
  \<open>np.where(mask)\<close> stacked and transposed: the index triples of the true entries,
  as the integers numpy compares with the voxel indices of the coordinates.
\<close>

definition np_where :: "bool array3 \<Rightarrow> (int \<times> int \<times> int) list" where
  "np_where m =
     map (\<lambda>(i, j, k). (int i, int j, int k))
         (filter (\<lambda>(i, j, k). m ! i ! j ! k) (ndindex m))"

text \<open>
  The affine of an image is its 4x4 matrix. \<open>mm2vox\<close> lives in \<open>nimare.utils\<close>, which
  is not part of the sources at hand; it is taken as a parameter of type \<open>mm2vox_fn\<close>,
  mapping one world-space point to the integer voxel index of the grid.
\<close>

type_synonym affine = "real list list"

type_synonym mm2vox_fn = "affine \<Rightarrow> real \<times> real \<times> real \<Rightarrow> int \<times> int \<times> int"

record masker =
  mask_img :: "real array3"
  mask_affine :: affine

text \<open>
  A Dataset: its study ids, coordinate table, image paths and metadata (one entry per
  study), and its default masker.
\<close>

record dataset =
  ids :: "study_id list"
  coordinates :: "coord_row list"
  images :: "(study_id \<times> string) list"
  metadata :: "(study_id \<times> string) list"
  ds_masker :: masker

section \<open>FocusFilter\<close>

text \<open>
  \<open>FocusFilter.__init__\<close> stores the optional mask; \<open>None\<close> means that the masker
  of the Dataset given to \<open>transform\<close> is used.
\<close>

record focus_filter =
  ff_masker :: "masker option"

definition select_masker :: "focus_filter \<Rightarrow> dataset \<Rightarrow> masker" where
  "select_masker self d = (case ff_masker self of Some m \<Rightarrow> m | None \<Rightarrow> ds_masker d)"

definition mask_ijk :: "masker \<Rightarrow> (int \<times> int \<times> int) list" where
  "mask_ijk m = np_where (map (map (map (\<lambda>v. v \<noteq> 0))) (mask_img m))"

definition dset_ijk :: "mm2vox_fn \<Rightarrow> masker \<Rightarrow> coord_row list \<Rightarrow> (int \<times> int \<times> int) list" where
  "dset_ijk mm2vox m rows = map (mm2vox (mask_affine m)) (map row_xyz rows)"

text \<open>
  \<open>keep_idx\<close>: the positions \<open>i\<close> whose voxel index equals some row of \<open>mask_ijk\<close>
  (\<open>len(np.where((mask_ijk == coord).all(axis=1))[0])\<close> is non-zero).
\<close>

definition keep_idx :: "(int \<times> int \<times> int) list \<Rightarrow> (int \<times> int \<times> int) list \<Rightarrow> nat list" where
  "keep_idx mijk dijk =
     filter (\<lambda>i. length (filter (\<lambda>v. v = dijk ! i) mijk) \<noteq> 0) [0..<length dijk]"

definition iloc :: "'a list \<Rightarrow> nat list \<Rightarrow> 'a list" where
  "iloc rows idx = map (\<lambda>i. rows ! i) idx"

definition filtered_coordinates :: "mm2vox_fn \<Rightarrow> focus_filter \<Rightarrow> dataset \<Rightarrow> coord_row list" where
  "filtered_coordinates mm2vox self d =
     (let m = select_masker self d;
          dijk = dset_ijk mm2vox m (coordinates d)
      in iloc (coordinates d) (keep_idx (mask_ijk m) dijk))"

text \<open>
  Datasets are Python objects: a heap maps object references to their contents.
  \<open>FocusFilter.transform\<close> receives a reference, assigns the \<open>coordinates\<close>
  attribute of the object it points to and returns the reference it was given. The
  third component is the pair logged by \<open>LGR.info\<close>: the number of rows removed and
  the number of rows before.
\<close>

type_synonym ref = nat

type_synonym heap = "ref \<Rightarrow> dataset"

definition FocusFilter_transform ::
  "mm2vox_fn \<Rightarrow> focus_filter \<Rightarrow> ref \<Rightarrow> heap \<Rightarrow> ref \<times> heap \<times> (nat \<times> nat)" where
  "FocusFilter_transform mm2vox self r h =
     (let d = h r;
          kept = filtered_coordinates mm2vox self d
      in (r, h(r := d\<lparr>coordinates := kept\<rparr>),
          (length (coordinates d) - length kept, length (coordinates d))))"

section \<open>FocusCounter: the per-study count\<close>

text \<open>
  \<open>np.unique\<close> returns the distinct entries in ascending order. The cluster ids are
  \<open>sorted(list(np.unique(labeled_cluster_map)[1:]))\<close>: the distinct labels without the
  smallest one (the background 0 of a labelled map). The labels of a labelled cluster
  map are whole numbers, held as integers here.
\<close>

definition np_unique :: "int list \<Rightarrow> int list" where
  "np_unique xs = sort (remdups xs)"

definition clust_ids_of :: "int array3 \<Rightarrow> int list" where
  "clust_ids_of labeled_cluster_map = sort (tl (np_unique (ravel labeled_cluster_map)))"

text \<open>An entry of \<open>scipy.spatial.distance.cdist\<close>: the Euclidean distance.\<close>

definition cdist :: "int \<times> int \<times> int \<Rightarrow> int \<times> int \<times> int \<Rightarrow> real" where
  "cdist a b =
     (case a of (a1, a2, a3) \<Rightarrow> case b of (b1, b2, b3) \<Rightarrow>
        sqrt (real_of_int ((a1 - b1)\<^sup>2 + (a2 - b2)\<^sup>2 + (a3 - b3)\<^sup>2)))"

text \<open>
  \<open>np.any(m, axis=0)\<close> of a matrix given by its rows, \<open>n\<close> columns wide, and
  \<open>np.sum\<close> of a boolean vector.
\<close>

definition any_axis0 :: "nat \<Rightarrow> bool list list \<Rightarrow> bool list" where
  "any_axis0 n m = map (\<lambda>j. list_ex (\<lambda>row. row ! j) m) [0..<n]"

definition np_sum_bool :: "bool list \<Rightarrow> int" where
  "np_sum_bool bs = sum_list (map (\<lambda>b. if b then 1 else 0) bs)"

definition cluster_idx :: "int array3 \<Rightarrow> int \<Rightarrow> (int \<times> int \<times> int) list" where
  "cluster_idx labeled_cluster_map c_val =
     np_where (map (map (map (\<lambda>l. l = c_val))) labeled_cluster_map)"

definition n_included_voxels :: "int array3 \<Rightarrow> (int \<times> int \<times> int) list \<Rightarrow> int \<Rightarrow> int" where
  "n_included_voxels labeled_cluster_map ijk c_val =
     (let distances = map (\<lambda>v. map (\<lambda>p. cdist v p) ijk) (cluster_idx labeled_cluster_map c_val);
          distances = map (map (\<lambda>d. d < 1)) distances;
          distances = any_axis0 (length ijk) distances
      in np_sum_bool distances)"

definition FocusCounter__transform ::
  "mm2vox_fn \<Rightarrow> study_id \<Rightarrow> coord_row list \<Rightarrow> int array3 \<Rightarrow> affine \<Rightarrow> study_id \<times> int list" where
  "FocusCounter__transform mm2vox expid coordinates_df labeled_cluster_map aff =
     (let coords = filter (\<lambda>r. row_id r = expid) coordinates_df;
          ijk = map (mm2vox aff) (map row_xyz coords);
          clust_ids = clust_ids_of labeled_cluster_map;
          focus_counts = map (n_included_voxels labeled_cluster_map ijk) clust_ids
      in (expid, focus_counts))"

text \<open>
  The count as the specification words it, for comparison: the peaks of the study whose
  Euclidean distance to some voxel of the cluster is at most 1.
\<close>

definition spec_focus_count ::
  "mm2vox_fn \<Rightarrow> study_id \<Rightarrow> coord_row list \<Rightarrow> int array3 \<Rightarrow> affine \<Rightarrow> int \<Rightarrow> int" where
  "spec_focus_count mm2vox expid coordinates_df labeled_cluster_map aff c_val =
     int (length (filter (\<lambda>p. list_ex (\<lambda>v. cdist v p \<le> 1) (cluster_idx labeled_cluster_map c_val))
                         (map (mm2vox aff) (map row_xyz (filter (\<lambda>r. row_id r = expid) coordinates_df)))))"

section \<open>Jackknife: the per-study proportional reduction\<close>

text \<open>
  A numpy double is a finite number, an infinity or NaN. Finite arithmetic is taken
  exactly (no rounding, no overflow of finite results) and the two zeros are one.
  \<open>float_max\<close> is \<open>np.finfo(np.float64).max\<close>.
\<close>

datatype npfloat = Finite real | PosInf | NegInf | NaN

definition float_max :: real where
  "float_max = (2 - 1 / 2 ^ 52) * 2 ^ 1023"

text \<open>
  \<open>np.true_divide\<close> under \<open>np.errstate(divide="ignore", invalid="ignore")\<close>: a division
  by zero gives an infinity, an invalid division gives NaN, and nothing is raised.
\<close>

fun true_divide :: "npfloat \<Rightarrow> npfloat \<Rightarrow> npfloat" where
  "true_divide NaN _ = NaN"
| "true_divide _ NaN = NaN"
| "true_divide (Finite a) (Finite b) =
     (if b = 0 then (if a = 0 then NaN else if 0 < a then PosInf else NegInf)
      else Finite (a / b))"
| "true_divide (Finite a) PosInf = Finite 0"
| "true_divide (Finite a) NegInf = Finite 0"
| "true_divide PosInf (Finite b) = (if b < 0 then NegInf else PosInf)"
| "true_divide NegInf (Finite b) = (if b < 0 then PosInf else NegInf)"
| "true_divide PosInf PosInf = NaN"
| "true_divide PosInf NegInf = NaN"
| "true_divide NegInf PosInf = NaN"
| "true_divide NegInf NegInf = NaN"

text \<open>\<open>np.nan_to_num\<close> with its defaults: NaN becomes 0, an infinity the largest finite double.\<close>

fun nan_to_num :: "npfloat \<Rightarrow> real" where
  "nan_to_num (Finite a) = a"
| "nan_to_num NaN = 0"
| "nan_to_num PosInf = float_max"
| "nan_to_num NegInf = - float_max"

text \<open>
  Lines 218 to 222: the ratio of the values of the reduced fit to the original values,
  voxel by voxel, passed through \<open>nan_to_num\<close> and subtracted from 1. Both vectors come
  from the same masker and have one entry per in-mask voxel.
\<close>

definition prop_values :: "npfloat list \<Rightarrow> npfloat list \<Rightarrow> real list" where
  "prop_values temp_stat_vals stat_values =
     map nan_to_num (map (\<lambda>(t, s). true_divide t s) (zip temp_stat_vals stat_values))"

definition voxelwise_stat_prop_values :: "npfloat list \<Rightarrow> npfloat list \<Rightarrow> real list" where
  "voxelwise_stat_prop_values temp_stat_vals stat_values =
     map (\<lambda>p. 1 - p) (prop_values temp_stat_vals stat_values)"

section \<open>Collaborators: maskers, results, estimators\<close>

text \<open>
  An image is its voxel values in C order and its affine.

  Modelled from the spec: the masker "maps between 3D volumetric image space and a
  flattened voxel vector" (nilearn's \<open>NiftiMasker\<close>, not part of the sources at hand).
  \<open>masker_transform\<close> reads the values at the in-mask voxels, in C order;
  \<open>inverse_transform\<close> writes a vector back to those voxels and fills the rest of
  the grid with zero. The fall-back of lines 226 to 231 builds the same image from the
  same vector, so one function stands for both branches.
\<close>

record 'a image =
  img_data :: "'a list"
  img_affine :: affine

definition in_mask :: "masker \<Rightarrow> bool list" where
  "in_mask m = map (\<lambda>v. v \<noteq> 0) (ravel (mask_img m))"

fun unmask :: "'a \<Rightarrow> bool list \<Rightarrow> 'a list \<Rightarrow> 'a list" where
  "unmask z [] vs = []"
| "unmask z (False # ms) vs = z # unmask z ms vs"
| "unmask z (True # ms) [] = z # unmask z ms []"
| "unmask z (True # ms) (v # vs) = v # unmask z ms vs"

definition inverse_transform :: "masker \<Rightarrow> 'a \<Rightarrow> 'a list \<Rightarrow> 'a image" where
  "inverse_transform m z vs = \<lparr>img_data = unmask z (in_mask m) vs, img_affine = mask_affine m\<rparr>"

definition masker_transform :: "masker \<Rightarrow> 'a image \<Rightarrow> 'a list" where
  "masker_transform m img = map snd (filter fst (zip (in_mask m) (img_data img)))"

text \<open>
  Modelled from the spec: the "per-cluster-label averaging transform (maps a full-volume
  value array to one mean value per cluster id)", nilearn's \<open>NiftiLabelsMasker\<close> fitted
  on a label map: one mean per non-zero label, in ascending order of the labels.
\<close>

definition masker_labels :: "int array3 \<Rightarrow> int list" where
  "masker_labels label_map = filter (\<lambda>l. l \<noteq> 0) (np_unique (ravel label_map))"

definition labels_masker_transform :: "int array3 \<Rightarrow> real image \<Rightarrow> real list" where
  "labels_masker_transform label_map img =
     map (\<lambda>c. let vals = map snd (filter (\<lambda>(l, v). l = c) (zip (ravel label_map) (img_data img)))
              in sum_list vals / real (length vals))
         (masker_labels label_map)"

text \<open>
  Python exceptions: the class raised and its message.
\<close>

datatype exc_class = AttributeError | ValueError

datatype error = Raise exc_class string

fun class_name :: "exc_class \<Rightarrow> string" where
  "class_name AttributeError = ''AttributeError''"
| "class_name ValueError = ''ValueError''"

fun exc_class_of :: "error \<Rightarrow> exc_class" where
  "exc_class_of (Raise c msg) = c"

fun exc_message :: "error \<Rightarrow> string" where
  "exc_message (Raise c msg) = msg"

text \<open>
  An Estimator after fitting. \<open>est_dataset\<close> is its \<open>dataset\<close> attribute, which a
  pairwise Estimator does not have (\<open>hasattr\<close> is false); \<open>inputs_id\<close> and
  \<open>inputs_coordinates\<close> are \<open>inputs_["id"]\<close> and \<open>inputs_["coordinates"]\<close>.
  A MetaResult holds its Estimator and the ordered dictionary of its maps, each a vector
  in the masker's voxel space.
\<close>

record estimator =
  est_dataset :: "dataset option"
  est_masker :: masker
  inputs_id :: "study_id list"
  inputs_coordinates :: "coord_row list"

record meta_result =
  res_estimator :: estimator
  res_maps :: "(string \<times> npfloat list) list"

definition quote :: "string \<Rightarrow> string" where
  "quote m = CHR 0x27 # m @ [CHR 0x27]"

fun join :: "string \<Rightarrow> string list \<Rightarrow> string" where
  "join sep [] = []"
| "join sep [x] = x"
| "join sep (x # y # ys) = x @ sep @ join sep (y # ys)"

text \<open>
  Modelled from the spec: the result "exposes a mapping of named statistical volumes";
  \<open>MetaResult.get_map\<close> (in \<open>nimare.results\<close>, not part of the sources at hand) looks
  the name up, fails on a name that is not there, and for \<open>return_type="image"\<close> writes
  the vector into the grid of the result's masker.
\<close>

definition get_map_array :: "meta_result \<Rightarrow> string \<Rightarrow> error + npfloat list" where
  "get_map_array result name =
     (case map_of (res_maps result) name of
        None \<Rightarrow> Inl (Raise ValueError (''No map with name '' @ quote name @ '' found.''))
      | Some m \<Rightarrow> Inr m)"

definition get_map_image :: "meta_result \<Rightarrow> string \<Rightarrow> error + npfloat image" where
  "get_map_image result name =
     (case get_map_array result name of
        Inl e \<Rightarrow> Inl e
      | Inr m \<Rightarrow> Inr (inverse_transform (est_masker (res_estimator result)) (Finite 0) m))"

text \<open>
  A row of the clusters table, and the functions of other modules that the diagnostics
  call: \<open>mm2vox\<close> and \<open>_get_clusters_table\<close> of \<open>nimare.utils\<close>, \<open>Dataset.slice\<close>
  and \<open>Estimator.fit\<close>. They are parameters of the model. \<open>_get_clusters_table\<close>
  receives the image, the threshold and \<open>two_sided\<close>, and returns the table and one
  labelled map per tail.
\<close>

datatype cluster_row =
  ClusterRow (cluster_id: int) (peak_x: real) (peak_y: real) (peak_z: real)
             (max_stat: real) (cluster_size: real)

record externals =
  ext_mm2vox :: mm2vox_fn
  ext_slice :: "dataset \<Rightarrow> study_id list \<Rightarrow> dataset"
  ext_fit :: "estimator \<Rightarrow> dataset \<Rightarrow> meta_result"
  ext_get_clusters_table :: "npfloat image \<Rightarrow> real \<Rightarrow> bool \<Rightarrow> cluster_row list \<times> int array3 list"

section \<open>Jackknife._transform\<close>

definition Jackknife__transform ::
  "externals \<Rightarrow> study_id \<Rightarrow> study_id list \<Rightarrow> dataset \<Rightarrow> estimator \<Rightarrow> string \<Rightarrow> npfloat list \<Rightarrow>
   masker \<Rightarrow> int array3 \<Rightarrow> error + (study_id \<times> real list)" where
  "Jackknife__transform ext expid all_ids dset est target_value_map stat_values
                        original_masker cluster_masker =
     (let other_ids = filter (\<lambda>sid. sid \<noteq> expid) all_ids;
          temp_dset = ext_slice ext dset other_ids;
          temp_result = ext_fit ext est temp_dset
      in case get_map_image temp_result target_value_map of
           Inl e \<Rightarrow> Inl e
         | Inr temp_stat_img \<Rightarrow>
             (let temp_stat_vals = masker_transform original_masker temp_stat_img;
                  vox = voxelwise_stat_prop_values temp_stat_vals stat_values;
                  stat_prop_img = inverse_transform original_masker 0 vox;
                  stat_prop_values = labels_masker_transform cluster_masker stat_prop_img
              in Inr (expid, stat_prop_values)))"

section \<open>Tables\<close>

text \<open>
  A pandas DataFrame after \<open>reset_index\<close>: its column names and its rows of cells.
  A cell holds a study id, a value, or NaN (a cell never assigned).
\<close>

datatype 'v cell = IdCell study_id | ValCell 'v | NaNCell

record 'v frame =
  df_columns :: "string list"
  df_rows :: "'v cell list list"

text \<open>
  \<open>pd.DataFrame(index=rows, columns=cols)\<close> is a table of NaN indexed by the study
  ids; \<open>contribution_table.loc[expid] = values\<close> overwrites the rows labelled
  \<open>expid\<close> (every study id is a label of the index, since the tasks run over the ids
  that make the index); \<open>reset_index\<close> turns the index into the first column, \<open>id\<close>.
\<close>

definition indexed_frame :: "study_id list \<Rightarrow> string list \<Rightarrow> (study_id \<times> 'v cell list) list" where
  "indexed_frame rows cols = map (\<lambda>r. (r, replicate (length cols) NaNCell)) rows"

definition loc_assign ::
  "study_id \<Rightarrow> 'v list \<Rightarrow> (study_id \<times> 'v cell list) list \<Rightarrow> (study_id \<times> 'v cell list) list" where
  "loc_assign expid vals tbl =
     map (\<lambda>(i, cs). if i = expid then (i, map ValCell vals) else (i, cs)) tbl"

definition reset_index :: "string list \<Rightarrow> (study_id \<times> 'v cell list) list \<Rightarrow> 'v frame" where
  "reset_index cols tbl =
     \<lparr>df_columns = ''id'' # cols, df_rows = map (\<lambda>(i, cs). IdCell i # cs) tbl\<rparr>"

text \<open>
  \<open>pd.concat(tables, ignore_index=True, sort=False)\<close>: the columns in order of first
  appearance, the rows of the tables one after the other, NaN where a table lacks a
  column. Concatenating no table at all raises a ValueError.
\<close>

definition pd_concat :: "'v frame list \<Rightarrow> error + 'v frame" where
  "pd_concat fs =
     (if fs = [] then Inl (Raise ValueError ''No objects to concatenate'')
      else
        (let cols = rev (remdups (rev (concat (map df_columns fs))))
         in Inr \<lparr>df_columns = cols,
                 df_rows = concat (map (\<lambda>f. map (\<lambda>r. map (\<lambda>c. case map_of (zip (df_columns f) r) c of
                                                                  Some v \<Rightarrow> v | None \<Rightarrow> NaNCell) cols)
                                                (df_rows f)) fs)\<rparr>))"

text \<open>Decimal notation of an integer, as \<open>f"{int(c_id)}"\<close> prints it.\<close>

fun str_nat :: "nat \<Rightarrow> string" where
  "str_nat n =
     (if n < 10 then [''0123456789'' ! n]
      else str_nat (n div 10) @ [''0123456789'' ! (n mod 10)])"

declare str_nat.simps [simp del]

definition str_int :: "int \<Rightarrow> string" where
  "str_int i = (if i < 0 then CHR ''-'' # str_nat (nat (- i)) else str_nat (nat i))"

definition col_names :: "int \<Rightarrow> int list \<Rightarrow> string list" where
  "col_names sign cluster_ids =
     (let col_name = (if sign = 1 then ''PosTail'' else ''NegTail'')
      in map (\<lambda>c_id. col_name @ '' '' @ str_int c_id) cluster_ids)"

section \<open>Jackknife.transform and FocusCounter.transform\<close>

text \<open>
  What a call of \<open>transform\<close> does: it returns or raises (\<open>outcome\<close>), it logs
  warnings (\<open>warnings\<close>, the messages of \<open>LGR.warning\<close>), and it hands per-study tasks
  to \<open>joblib.Parallel\<close> (\<open>tasks\<close>: the tail sign and the study id of every call of
  \<open>_transform\<close> dispatched, in order of submission).
\<close>

record 'r run =
  outcome :: "error + 'r"
  warnings :: "string list"
  tasks :: "(int \<times> study_id) list"

definition raising :: "error \<Rightarrow> 'r run" where
  "raising e = \<lparr>outcome = Inl e, warnings = [], tasks = []\<rparr>"

fun collect :: "('e + 'a) list \<Rightarrow> 'e + 'a list" where
  "collect [] = Inr []"
| "collect (Inl e # rs) = Inl e"
| "collect (Inr a # rs) = (case collect rs of Inl e \<Rightarrow> Inl e | Inr as \<Rightarrow> Inr (a # as))"

text \<open>
  The loop over the tails (\<open>for sign, label_map in zip(signs, label_maps)\<close>): the tasks
  of a tail are dispatched for every study id, a task that raises aborts the call, and
  the tails after it are never started.
\<close>

fun run_signs ::
  "(int \<times> 'l \<Rightarrow> error + 'v frame) \<Rightarrow> study_id list \<Rightarrow> (int \<times> 'l) list \<Rightarrow>
   (error + 'v frame list) \<times> (int \<times> study_id) list" where
  "run_signs f meta_ids [] = (Inr [], [])"
| "run_signs f meta_ids (sl # rest) =
     (case f sl of
        Inl e \<Rightarrow> (Inl e, map (Pair (fst sl)) meta_ids)
      | Inr t \<Rightarrow>
          (case run_signs f meta_ids rest of
             (Inl e, ts) \<Rightarrow> (Inl e, map (Pair (fst sl)) meta_ids @ ts)
           | (Inr tbls, ts) \<Rightarrow> (Inr (t # tbls), map (Pair (fst sl)) meta_ids @ ts)))"

definition signs_of :: "'l list \<Rightarrow> int list" where
  "signs_of label_maps = (if length label_maps = 2 then [1, - 1] else [1])"

definition no_dataset_message :: string where
  "no_dataset_message =
     ''MetaResult was not generated by an Estimator with a `dataset` attribute. '' @
     ''This may be because the Estimator was a pairwise Estimator. '' @
     ''The Jackknife method does not currently work with pairwise Estimators.''"

definition missing_target_message :: "string \<Rightarrow> meta_result \<Rightarrow> string" where
  "missing_target_message target result =
     (let available_maps = map quote (map fst (res_maps result))
      in ''Target image ('' @ quote target @ '') not present in result. '' @
         ''Available maps in result are: '' @ join '', '' available_maps @ ''.'')"

definition np_less_zero :: "npfloat \<Rightarrow> bool" where
  "np_less_zero v = (case v of Finite a \<Rightarrow> a < 0 | NegInf \<Rightarrow> True | PosInf \<Rightarrow> False | NaN \<Rightarrow> False)"

definition stat_threshold_of :: "real option \<Rightarrow> real" where
  "stat_threshold_of voxel_thresh =
     (case voxel_thresh of None \<Rightarrow> 0 | Some t \<Rightarrow> if t = 0 then 0 else t)"

text \<open>
  Lines 129 to 134: the map whose values are compared, \<open>est\<close> if the result has it,
  else \<open>stat\<close>, else \<open>z\<close>.
\<close>

definition target_value_map_of :: "meta_result \<Rightarrow> string" where
  "target_value_map_of result =
     (if ''est'' \<in> set (map fst (res_maps result)) then ''est''
      else if ''stat'' \<in> set (map fst (res_maps result)) then ''stat''
      else ''z'')"

record jackknife =
  jk_target_image :: string
  jk_voxel_thresh :: "real option"
  jk_n_cores :: int

definition jackknife_sign_table ::
  "externals \<Rightarrow> dataset \<Rightarrow> estimator \<Rightarrow> string \<Rightarrow> npfloat list \<Rightarrow> masker \<Rightarrow> study_id list \<Rightarrow>
   int \<times> int array3 \<Rightarrow> error + real frame" where
  "jackknife_sign_table ext dset est target_value_map stat_values original_masker meta_ids sl =
     (case sl of (sign, label_map) \<Rightarrow>
        (let cluster_ids = clust_ids_of label_map;
             cols = col_names sign cluster_ids;
             contribution_table = indexed_frame meta_ids cols;
             cluster_masker = label_map
         in case collect (map (\<lambda>study_id.
                                 Jackknife__transform ext study_id meta_ids dset est target_value_map
                                   stat_values original_masker cluster_masker) meta_ids) of
              Inl e \<Rightarrow> Inl e
            | Inr jackknife_results \<Rightarrow>
                Inr (reset_index cols
                       (fold (\<lambda>(expid, stat_prop_values). loc_assign expid stat_prop_values)
                             jackknife_results contribution_table))))"

definition Jackknife_transform ::
  "externals \<Rightarrow> jackknife \<Rightarrow> meta_result \<Rightarrow> (real frame \<times> cluster_row list \<times> int array3 list) run" where
  "Jackknife_transform ext self result =
     (case est_dataset (res_estimator result) of
        None \<Rightarrow> raising (Raise AttributeError no_dataset_message)
      | Some dset \<Rightarrow>
          (let est = res_estimator result;
               original_masker = est_masker est
           in if jk_target_image self \<notin> set (map fst (res_maps result))
              then raising (Raise ValueError (missing_target_message (jk_target_image self) result))
              else
                (case get_map_image result (jk_target_image self) of
                   Inl e \<Rightarrow> raising e
                 | Inr target_img \<Rightarrow>
                     (let target_value_map = target_value_map_of result
                      in case get_map_array result target_value_map of
                           Inl e \<Rightarrow> raising e
                         | Inr stat_values \<Rightarrow>
                             (let meta_ids = inputs_id est;
                                  rows = meta_ids;
                                  two_sided = list_ex np_less_zero (img_data target_img);
                                  stat_threshold = stat_threshold_of (jk_voxel_thresh self)
                              in case ext_get_clusters_table ext target_img stat_threshold two_sided of
                                   (clusters_table, label_maps) \<Rightarrow>
                                     if length clusters_table = 0
                                     then \<lparr>outcome = Inr (\<lparr>df_columns = [''id''],
                                                             df_rows = map (\<lambda>r. [IdCell r]) rows\<rparr>,
                                                           clusters_table, label_maps),
                                           warnings = [''No clusters found''], tasks = []\<rparr>
                                     else
                                       (case run_signs (jackknife_sign_table ext dset est target_value_map
                                                          stat_values original_masker meta_ids)
                                                       meta_ids (zip (signs_of label_maps) label_maps) of
                                          (Inl e, ts) \<Rightarrow> \<lparr>outcome = Inl e, warnings = [], tasks = ts\<rparr>
                                        | (Inr contribution_tables, ts) \<Rightarrow>
                                            (case pd_concat contribution_tables of
                                               Inl e \<Rightarrow> \<lparr>outcome = Inl e, warnings = [], tasks = ts\<rparr>
                                             | Inr contribution_table \<Rightarrow>
                                                 \<lparr>outcome = Inr (contribution_table, clusters_table, label_maps),
                                                  warnings = [], tasks = ts\<rparr>)))))))"

record focus_counter =
  fc_target_image :: string
  fc_voxel_thresh :: "real option"
  fc_n_cores :: int

definition focus_counter_sign_table ::
  "externals \<Rightarrow> estimator \<Rightarrow> affine \<Rightarrow> study_id list \<Rightarrow> int \<times> int array3 \<Rightarrow> error + int frame" where
  "focus_counter_sign_table ext est aff meta_ids sl =
     (case sl of (sign, label_arr) \<Rightarrow>
        (let cluster_ids = clust_ids_of label_arr;
             cols = col_names sign cluster_ids;
             contribution_table = indexed_frame meta_ids cols;
             jackknife_results =
               map (\<lambda>study_id. FocusCounter__transform (ext_mm2vox ext) study_id
                                  (inputs_coordinates est) label_arr aff) meta_ids
         in Inr (reset_index cols
                   (fold (\<lambda>(expid, focus_counts). loc_assign expid focus_counts)
                         jackknife_results contribution_table))))"

text \<open>
  \<open>FocusCounter.transform\<close> first calls nilearn's \<open>reporting.get_clusters_table\<close> and
  overwrites its result a few lines later; that call leaves no trace in the model.
\<close>

definition FocusCounter_transform ::
  "externals \<Rightarrow> focus_counter \<Rightarrow> meta_result \<Rightarrow> (int frame \<times> cluster_row list \<times> int array3 list) run" where
  "FocusCounter_transform ext self result =
     (case est_dataset (res_estimator result) of
        None \<Rightarrow> raising (Raise AttributeError no_dataset_message)
      | Some dset \<Rightarrow>
          (let est = res_estimator result
           in if fc_target_image self \<notin> set (map fst (res_maps result))
              then raising (Raise ValueError (missing_target_message (fc_target_image self) result))
              else
                (case get_map_image result (fc_target_image self) of
                   Inl e \<Rightarrow> raising e
                 | Inr target_img \<Rightarrow>
                     (let stat_threshold = stat_threshold_of (fc_voxel_thresh self);
                          meta_ids = inputs_id est;
                          rows = meta_ids;
                          two_sided = list_ex np_less_zero (img_data target_img)
                      in case ext_get_clusters_table ext target_img stat_threshold two_sided of
                           (clusters_table, label_maps) \<Rightarrow>
                             if length clusters_table = 0
                             then \<lparr>outcome = Inr (\<lparr>df_columns = [''id''],
                                                     df_rows = map (\<lambda>r. [IdCell r]) rows\<rparr>,
                                                   clusters_table, label_maps),
                                   warnings = [''No clusters found''], tasks = []\<rparr>
                             else
                               (case run_signs (focus_counter_sign_table ext est (img_affine target_img) meta_ids)
                                               meta_ids (zip (signs_of label_maps) label_maps) of
                                  (Inl e, ts) \<Rightarrow> \<lparr>outcome = Inl e, warnings = [], tasks = ts\<rparr>
                                | (Inr contribution_tables, ts) \<Rightarrow>
                                    (case pd_concat contribution_tables of
                                       Inl e \<Rightarrow> \<lparr>outcome = Inl e, warnings = [], tasks = ts\<rparr>
                                     | Inr contribution_table \<Rightarrow>
                                         \<lparr>outcome = Inr (contribution_table, clusters_table, label_maps),
                                          warnings = [], tasks = ts\<rparr>))))))"

text \<open>The defaults of \<open>__init__\<close> (one core asked for, so one core used).\<close>

definition default_target_image :: string where
  "default_target_image = ''z_desc-size_level-cluster_corr-FWE_method-montecarlo''"

definition default_jackknife :: jackknife where
  "default_jackknife =
     \<lparr>jk_target_image = default_target_image, jk_voxel_thresh = None, jk_n_cores = 1\<rparr>"

definition default_focus_counter :: focus_counter where
  "default_focus_counter =
     \<lparr>fc_target_image = default_target_image, fc_voxel_thresh = None, fc_n_cores = 1\<rparr>"

section \<open>Notions used by the properties\<close>

text \<open>
  The class of the exception a call raised, by name; \<open>None\<close> when it returned.
\<close>

definition raised_class :: "'r run \<Rightarrow> string option" where
  "raised_class r = (case outcome r of Inl e \<Rightarrow> Some (class_name (exc_class_of e)) | Inr v \<Rightarrow> None)"

text \<open>
  The values of a reduced fit are unchanged on cluster \<open>c\<close>: at every in-mask voxel of
  the grid labelled \<open>c\<close>, the image of the reduced fit and the original value map hold
  the same finite, non-zero number.
\<close>

definition same_nonzero :: "npfloat \<Rightarrow> npfloat \<Rightarrow> bool" where
  "same_nonzero t s = (case (t, s) of (Finite a, Finite b) \<Rightarrow> a = b \<and> a \<noteq> 0 | _ \<Rightarrow> False)"

definition unchanged_on_cluster ::
  "int array3 \<Rightarrow> masker \<Rightarrow> int \<Rightarrow> npfloat image \<Rightarrow> npfloat list \<Rightarrow> bool" where
  "unchanged_on_cluster label_map m c temp_img stat_values =
     list_all (\<lambda>(l, b, t, s). l = c \<and> b \<longrightarrow> same_nonzero t s)
       (zip (ravel label_map) (zip (in_mask m) (zip (img_data temp_img)
          (unmask (Finite 0) (in_mask m) stat_values))))"

section \<open>Concrete inputs\<close>

text \<open>
  A grid of 1 x 1 x 3 voxels with the identity affine, under which a world coordinate is
  a voxel coordinate and \<open>mm2vox\<close> only rounds. The first two voxels are in the mask.
  Study A has a peak in each of them, study B one peak outside the grid and study C
  none.
\<close>

definition unit_mm2vox :: mm2vox_fn where
  "unit_mm2vox aff p = (case p of (x, y, z) \<Rightarrow> (round x, round y, round z))"

definition identity_affine :: affine where
  "identity_affine = [[1, 0, 0, 0], [0, 1, 0, 0], [0, 0, 1, 0], [0, 0, 0, 1]]"

definition ex_masker :: masker where
  "ex_masker = \<lparr>mask_img = [[[1, 1, 0]]], mask_affine = identity_affine\<rparr>"

definition ex_dataset :: dataset where
  "ex_dataset =
     \<lparr>ids = [''A'', ''B'', ''C''],
      coordinates = [CoordRow ''A'' 0 0 0, CoordRow ''A'' 0 0 1, CoordRow ''B'' 0 0 5],
      images = [(''C'', ''c_z.nii.gz'')],
      metadata = [(''A'', ''n=10''), (''B'', ''n=12''), (''C'', ''n=8'')],
      ds_masker = ex_masker\<rparr>"

definition ex_estimator :: estimator where
  "ex_estimator =
     \<lparr>est_dataset = Some ex_dataset, est_masker = ex_masker,
      inputs_id = [''A'', ''B'', ''C''], inputs_coordinates = coordinates ex_dataset\<rparr>"

definition ex_result :: meta_result where
  "ex_result =
     \<lparr>res_estimator = ex_estimator,
      res_maps = [(''stat'', [Finite 10, Finite 20]), (''z'', [Finite 0, Finite 0])]\<rparr>"

text \<open>
  Collaborators for the concrete inputs: a slice that keeps the studies asked for, an
  Estimator whose \<open>stat\<close> map is \<open>vals\<close> whatever the studies, and a cluster
  extraction that finds \<open>tbl\<close> and \<open>lms\<close>.
\<close>

definition ex_ext :: "npfloat list \<Rightarrow> cluster_row list \<Rightarrow> int array3 list \<Rightarrow> externals" where
  "ex_ext vals tbl lms =
     \<lparr>ext_mm2vox = unit_mm2vox,
      ext_slice = (\<lambda>d sids. d\<lparr>ids := filter (\<lambda>i. i \<in> set sids) (ids d),
                                coordinates := filter (\<lambda>r. row_id r \<in> set sids) (coordinates d)\<rparr>),
      ext_fit = (\<lambda>est d. \<lparr>res_estimator = est, res_maps = [(''stat'', vals)]\<rparr>),
      ext_get_clusters_table = (\<lambda>img thr two_sided. (tbl, lms))\<rparr>"

text \<open>The same result from a pairwise Estimator, which keeps no \<open>dataset\<close>.\<close>

definition ex_pairwise_result :: meta_result where
  "ex_pairwise_result = ex_result\<lparr>res_estimator := ex_estimator\<lparr>est_dataset := None\<rparr>\<rparr>"

section \<open>Properties of FocusFilter\<close>

lemma iloc_keep_idx:
  "iloc xs (keep_idx M (map g xs)) = filter (\<lambda>x. g x \<in> set M) xs"
proof -
  have a: "\<And>v. (length (filter (\<lambda>w. w = v) M) \<noteq> 0) = (v \<in> set M)"
    by (auto simp: filter_empty_conv)
  have "filter (\<lambda>x. g x \<in> set M) xs = filter (\<lambda>x. g x \<in> set M) (map ((!) xs) [0..<length xs])"
    by (simp add: map_nth)
  also have "\<dots> = map ((!) xs) (filter (\<lambda>i. g (xs ! i) \<in> set M) [0..<length xs])"
    by (simp add: filter_map comp_def)
  also have "\<dots> = iloc xs (keep_idx M (map g xs))"
    unfolding iloc_def keep_idx_def a
    by (rule arg_cong[where f="map ((!) xs)"], rule filter_cong) auto
  finally show ?thesis by simp
qed

lemma filtered_coordinates_filter:
  "filtered_coordinates mm2vox self d =
     filter (\<lambda>row. mm2vox (mask_affine (select_masker self d)) (row_xyz row)
                      \<in> set (mask_ijk (select_masker self d)))
            (coordinates d)"
  unfolding filtered_coordinates_def dset_ijk_def Let_def map_map
  using iloc_keep_idx[of "coordinates d" "mask_ijk (select_masker self d)"
                         "mm2vox (mask_affine (select_masker self d)) \<circ> row_xyz"]
  by (simp add: comp_def)

lemma select_masker_coordinates:
  "select_masker self (d\<lparr>coordinates := c\<rparr>) = select_masker self d"
  by (simp add: select_masker_def split: option.split)

lemma filtered_coordinates_idem:
  "filtered_coordinates mm2vox self (d\<lparr>coordinates := filtered_coordinates mm2vox self d\<rparr>)
     = filtered_coordinates mm2vox self d"
  by (simp add: filtered_coordinates_filter select_masker_coordinates)

lemma ex_mask_ijk: "mask_ijk ex_masker = [(0, 0, 0), (0, 0, 1)]"
  by (simp add: mask_ijk_def ex_masker_def np_where_def ndindex_def)

lemma ex_filtered_coordinates:
  "filtered_coordinates unit_mm2vox \<lparr>ff_masker = None\<rparr> ex_dataset
     = [CoordRow ''A'' 0 0 0, CoordRow ''A'' 0 0 1]"
  by (simp add: filtered_coordinates_filter select_masker_def ex_mask_ijk ex_dataset_def
        unit_mm2vox_def row_xyz_def)

lemma ex_FocusFilter_transform:
  "FocusFilter_transform unit_mm2vox \<lparr>ff_masker = None\<rparr> 0 (\<lambda>_. ex_dataset)
     = (0, (\<lambda>_. ex_dataset)(0 := ex_dataset\<lparr>coordinates := [CoordRow ''A'' 0 0 0, CoordRow ''A'' 0 0 1]\<rparr>),
        (1, 3))"
  by (simp add: FocusFilter_transform_def ex_filtered_coordinates Let_def) (simp add: ex_dataset_def)

text \<open>
  C7. \<open>FocusFilter.transform\<close> is idempotent: applied to the Dataset it has just
  returned, with the same mask, it removes no row and leaves the heap, hence the
  coordinate table, as the first application left it.
\<close>

theorem FocusFilter_transform_idempotent:
  "FocusFilter_transform mm2vox self
      (fst (FocusFilter_transform mm2vox self r h))
      (fst (snd (FocusFilter_transform mm2vox self r h)))
   = (r, fst (snd (FocusFilter_transform mm2vox self r h)),
      (0, length (filtered_coordinates mm2vox self (h r))))"
  by (simp add: FocusFilter_transform_def Let_def filtered_coordinates_idem)

theorem FocusFilter_transform_idempotent_witness:
  "FocusFilter_transform unit_mm2vox \<lparr>ff_masker = None\<rparr>
      (fst (FocusFilter_transform unit_mm2vox \<lparr>ff_masker = None\<rparr> 0 (\<lambda>_. ex_dataset)))
      (fst (snd (FocusFilter_transform unit_mm2vox \<lparr>ff_masker = None\<rparr> 0 (\<lambda>_. ex_dataset))))
   = (0, fst (snd (FocusFilter_transform unit_mm2vox \<lparr>ff_masker = None\<rparr> 0 (\<lambda>_. ex_dataset))), (0, 2))"
  using FocusFilter_transform_idempotent [of unit_mm2vox "\<lparr>ff_masker = None\<rparr>" 0 "\<lambda>_. ex_dataset"]
  by (simp add: ex_filtered_coordinates)

text \<open>
  C8. \<open>FocusFilter.transform\<close> changes only the coordinate table: the heap after the
  call is the heap before with the \<open>coordinates\<close> of the one Dataset replaced, and
  the study ids, image paths, metadata and masker of that Dataset are what they were.
  The ids being unchanged, a study that lost all its rows is still a study of the
  Dataset.
\<close>

theorem FocusFilter_transform_frame:
  "fst (snd (FocusFilter_transform mm2vox self r h))
     = h(r := (h r)\<lparr>coordinates := filtered_coordinates mm2vox self (h r)\<rparr>)
   \<and> ids (fst (snd (FocusFilter_transform mm2vox self r h)) r) = ids (h r)
   \<and> images (fst (snd (FocusFilter_transform mm2vox self r h)) r) = images (h r)
   \<and> metadata (fst (snd (FocusFilter_transform mm2vox self r h)) r) = metadata (h r)
   \<and> ds_masker (fst (snd (FocusFilter_transform mm2vox self r h)) r) = ds_masker (h r)"
  by (simp add: FocusFilter_transform_def Let_def)

theorem FocusFilter_transform_frame_witness:
  "ids (fst (snd (FocusFilter_transform unit_mm2vox \<lparr>ff_masker = None\<rparr> 0 (\<lambda>_. ex_dataset))) 0)
     = [''A'', ''B'', ''C'']
   \<and> filter (\<lambda>row. row_id row = ''B'')
        (coordinates (fst (snd (FocusFilter_transform unit_mm2vox \<lparr>ff_masker = None\<rparr> 0
                                  (\<lambda>_. ex_dataset))) 0)) = []
   \<and> filter (\<lambda>row. row_id row = ''B'') (coordinates ex_dataset) = [CoordRow ''B'' 0 0 5]"
proof -
  have b: "filter (\<lambda>row. row_id row = ''B'') (coordinates ex_dataset) = [CoordRow ''B'' 0 0 5]"
    by (simp add: ex_dataset_def)
  have c: "ids ex_dataset = [''A'', ''B'', ''C'']"
    by (simp add: ex_dataset_def)
  show ?thesis
    using FocusFilter_transform_frame [of unit_mm2vox "\<lparr>ff_masker = None\<rparr>" 0 "\<lambda>_. ex_dataset"]
    by (simp add: ex_FocusFilter_transform ex_filtered_coordinates b c)
qed

text \<open>
  C10. \<open>FocusFilter.transform\<close> works in place: it returns the reference it was given,
  and the Dataset behind that reference, the caller's own, afterwards holds exactly the
  coordinate rows whose voxel index is an in-mask voxel; the rows removed are gone
  from it.
\<close>

theorem FocusFilter_transform_in_place:
  "fst (FocusFilter_transform mm2vox self r h) = r
   \<and> coordinates (fst (snd (FocusFilter_transform mm2vox self r h)) r)
       = filter (\<lambda>row. mm2vox (mask_affine (select_masker self (h r))) (row_xyz row)
                        \<in> set (mask_ijk (select_masker self (h r))))
                (coordinates (h r))"
  by (simp add: FocusFilter_transform_def Let_def filtered_coordinates_filter)

theorem FocusFilter_transform_in_place_witness:
  "fst (FocusFilter_transform unit_mm2vox \<lparr>ff_masker = None\<rparr> 0 (\<lambda>_. ex_dataset)) = 0
   \<and> coordinates (fst (snd (FocusFilter_transform unit_mm2vox \<lparr>ff_masker = None\<rparr> 0 (\<lambda>_. ex_dataset))) 0)
       = [CoordRow ''A'' 0 0 0, CoordRow ''A'' 0 0 1]
   \<and> snd (snd (FocusFilter_transform unit_mm2vox \<lparr>ff_masker = None\<rparr> 0 (\<lambda>_. ex_dataset))) = (1, 3)"
  using FocusFilter_transform_in_place [of unit_mm2vox "\<lparr>ff_masker = None\<rparr>" 0 "\<lambda>_. ex_dataset"]
  by (simp add: ex_FocusFilter_transform)

section \<open>Properties of FocusCounter\<close>

text \<open>Between voxel indices, which are whole, a distance below 1 is the distance 0.\<close>

lemma cdist_less_1_iff: "cdist v p < 1 \<longleftrightarrow> v = p"
proof -
  obtain a1 a2 a3 where v: "v = (a1, a2, a3)" by (cases v) auto
  obtain b1 b2 b3 where p: "p = (b1, b2, b3)" by (cases p) auto
  have "(a1 - b1)\<^sup>2 + (a2 - b2)\<^sup>2 + (a3 - b3)\<^sup>2 < 1 \<longleftrightarrow> a1 = b1 \<and> a2 = b2 \<and> a3 = b3"
  proof
    assume h: "(a1 - b1)\<^sup>2 + (a2 - b2)\<^sup>2 + (a3 - b3)\<^sup>2 < 1"
    have "0 \<le> (a1 - b1)\<^sup>2" "0 \<le> (a2 - b2)\<^sup>2" "0 \<le> (a3 - b3)\<^sup>2" by simp_all
    with h have "(a1 - b1)\<^sup>2 = 0" "(a2 - b2)\<^sup>2 = 0" "(a3 - b3)\<^sup>2 = 0" by linarith+
    then show "a1 = b1 \<and> a2 = b2 \<and> a3 = b3" by simp
  qed simp
  then show ?thesis
    unfolding v p cdist_def by (simp del: of_int_add of_int_power)
qed

lemma np_sum_bool_count: "np_sum_bool bs = int (length (filter (\<lambda>b. b) bs))"
  unfolding np_sum_bool_def by (induction bs) auto

lemma n_included_voxels_eq:
  "n_included_voxels lm ijk c = int (length (filter (\<lambda>p. p \<in> set (cluster_idx lm c)) ijk))"
proof -
  have "any_axis0 (length ijk)
          (map (map (\<lambda>d. d < 1)) (map (\<lambda>v. map (\<lambda>p. cdist v p) ijk) (cluster_idx lm c)))
        = map (\<lambda>p. p \<in> set (cluster_idx lm c)) ijk"
    by (rule nth_equalityI) (auto simp: any_axis0_def list_ex_iff cdist_less_1_iff)
  then show ?thesis
    unfolding n_included_voxels_def Let_def np_sum_bool_count
    by (simp add: filter_map comp_def)
qed

lemma ex_clust_ids: "clust_ids_of [[[1, 0, 0]]] = [1]"
  by (simp add: clust_ids_of_def np_unique_def ravel_def)

lemma ex_cluster_idx: "cluster_idx [[[1, 0, 0]]] 1 = [(0, 0, 0)]"
  by (simp add: cluster_idx_def np_where_def ndindex_def)

lemma ex_rows:
  "filter (\<lambda>r. row_id r = ''A'') (coordinates ex_dataset)
     = [CoordRow ''A'' 0 0 0, CoordRow ''A'' 0 0 1]"
  "filter (\<lambda>r. row_id r = ''C'') (coordinates ex_dataset) = []"
  by (simp_all add: ex_dataset_def)

lemma n_included_voxels_no_peak: "n_included_voxels lm [] c = 0"
  by (simp add: n_included_voxels_eq)

text \<open>
  C2, as the code has it. For every study and every cluster, the count is the number of
  the study's peak voxel coordinates that coincide with a voxel of the cluster: the
  test is \<open>distances < 1\<close>, and between voxel indices only the distance 0 is below 1.
  A peak that face-touches the cluster (distance exactly 1) is not counted.
\<close>

theorem FocusCounter_counts_coinciding_peaks:
  "FocusCounter__transform mm2vox expid coordinates_df labeled_cluster_map aff =
     (expid,
      map (\<lambda>c_val. int (length (filter (\<lambda>p. p \<in> set (cluster_idx labeled_cluster_map c_val))
                (map (mm2vox aff) (map row_xyz (filter (\<lambda>r. row_id r = expid) coordinates_df))))))
          (clust_ids_of labeled_cluster_map))"
  unfolding FocusCounter__transform_def Let_def
  by (simp add: n_included_voxels_eq)

theorem FocusCounter_counts_coinciding_peaks_witness:
  "FocusCounter__transform unit_mm2vox ''A'' (coordinates ex_dataset) [[[1, 0, 0]]] identity_affine
     = (''A'', [1])"
  using FocusCounter_counts_coinciding_peaks
          [of unit_mm2vox "''A''" "coordinates ex_dataset" "[[[1, 0, 0]]]" identity_affine]
  by (simp add: ex_clust_ids ex_cluster_idx ex_rows unit_mm2vox_def row_xyz_def)

text \<open>
  C2, as the specification words it, fails: study A has one peak in the voxel of
  cluster 1 and one in the voxel next to it. The code counts 1; counting the peaks
  within distance at most 1 gives 2.
\<close>

theorem FocusCounter_face_touching_counterexample:
  "snd (FocusCounter__transform unit_mm2vox ''A'' (coordinates ex_dataset) [[[1, 0, 0]]]
          identity_affine) = [1]
   \<and> map (spec_focus_count unit_mm2vox ''A'' (coordinates ex_dataset) [[[1, 0, 0]]] identity_affine)
         (clust_ids_of [[[1, 0, 0]]]) = [2]"
  by (simp add: FocusCounter__transform_def n_included_voxels_eq spec_focus_count_def
        ex_clust_ids ex_cluster_idx ex_rows unit_mm2vox_def row_xyz_def cdist_def)

text \<open>
  C9. Every count is a non-negative integer, and a study without a row in the coordinate
  table has the count 0 for every cluster.
\<close>

theorem FocusCounter_counts_nonnegative:
  "(\<forall>n \<in> set (snd (FocusCounter__transform mm2vox expid coordinates_df labeled_cluster_map aff)).
      0 \<le> n)
   \<and> ((\<forall>r \<in> set coordinates_df. row_id r \<noteq> expid) \<longrightarrow>
        snd (FocusCounter__transform mm2vox expid coordinates_df labeled_cluster_map aff)
          = replicate (length (clust_ids_of labeled_cluster_map)) 0)"
proof (intro conjI impI)
  show "\<forall>n \<in> set (snd (FocusCounter__transform mm2vox expid coordinates_df labeled_cluster_map aff)).
          0 \<le> n"
    by (auto simp: FocusCounter__transform_def Let_def n_included_voxels_eq)
next
  assume "\<forall>r \<in> set coordinates_df. row_id r \<noteq> expid"
  then have "filter (\<lambda>r. row_id r = expid) coordinates_df = []"
    by (simp add: filter_empty_conv)
  then have "snd (FocusCounter__transform mm2vox expid coordinates_df labeled_cluster_map aff)
               = map (\<lambda>c. 0) (clust_ids_of labeled_cluster_map)"
    by (simp add: FocusCounter__transform_def Let_def n_included_voxels_no_peak)
  then show "snd (FocusCounter__transform mm2vox expid coordinates_df labeled_cluster_map aff)
               = replicate (length (clust_ids_of labeled_cluster_map)) 0"
    by (simp add: map_replicate_const)
qed

theorem FocusCounter_counts_nonnegative_witness:
  "filter (\<lambda>r. row_id r = ''C'') (coordinates ex_dataset) = []
   \<and> snd (FocusCounter__transform unit_mm2vox ''C'' (coordinates ex_dataset) [[[1, 0, 0]]]
            identity_affine) = [0]"
proof -
  have h: "\<forall>r \<in> set (coordinates ex_dataset). row_id r \<noteq> ''C''"
    by (simp add: ex_dataset_def)
  show ?thesis
    using h FocusCounter_counts_nonnegative
            [of unit_mm2vox "''C''" "coordinates ex_dataset" "[[[1, 0, 0]]]" identity_affine]
    by (simp add: ex_clust_ids ex_rows)
qed

section \<open>Properties of the Jackknife contribution\<close>





lemma vox_Cons:
  "voxelwise_stat_prop_values (t # ts) (s # ss) =
     (1 - nan_to_num (true_divide t s)) # voxelwise_stat_prop_values ts ss"
  by (simp add: voxelwise_stat_prop_values_def prop_values_def)

lemma vox_Nil:
  "voxelwise_stat_prop_values [] ss = []" "voxelwise_stat_prop_values ts [] = []"
  by (simp_all add: voxelwise_stat_prop_values_def prop_values_def)

lemma unmask_Nil_fill: "x \<in> set (unmask z ms []) \<Longrightarrow> x = z"
proof (induction ms)
  case Nil
  then show ?case by simp
next
  case (Cons m ms)
  then show ?case by (cases m) auto
qed

text \<open>
  On the voxels of a cluster where nothing changed, the image of the proportional
  reductions is zero: by induction along the grid, the mask deciding at each voxel
  whether the next entry of the vectors is consumed.
\<close>

lemma cluster_values_zero:
  "list_all (\<lambda>(l, b, t, s). l = c \<and> b \<longrightarrow> same_nonzero t s)
       (zip ls (zip ms (zip timg (unmask (Finite 0) ms ss))))
   \<Longrightarrow> (l, v) \<in> set (zip ls (unmask 0 ms (voxelwise_stat_prop_values
                           (map snd (filter fst (zip ms timg))) ss)))
   \<Longrightarrow> l = c \<Longrightarrow> v = 0"
proof (induction ms arbitrary: ls timg ss)
  case Nil
  then show ?case by simp
next
  case (Cons m ms)
  obtain l0 ls' where ls: "ls = l0 # ls'" using Cons.prems(2) by (cases ls) auto
  show ?case
  proof (cases timg)
    case Nil
    with Cons.prems show ?thesis
      by (auto simp: vox_Nil dest!: set_zip_rightD unmask_Nil_fill)
  next
    case timg: (Cons t0 timg')
    show ?thesis
    proof (cases m)
      case False
      with Cons.prems ls timg show ?thesis
        using Cons.IH[of ls' timg' ss] by auto
    next
      case True
      show ?thesis
      proof (cases ss)
        case Nil
        with True Cons.prems ls timg show ?thesis
          by (auto simp: vox_Nil dest: set_zip_rightD unmask_Nil_fill)
      next
        case (Cons s0 ss')
        with True Cons.prems ls timg show ?thesis
          using Cons.IH[of ls' timg' ss']
          by (auto simp: vox_Cons same_nonzero_def split: npfloat.splits)
      qed
    qed
  qed
qed

lemma sum_list_all_zero: "(\<forall>v \<in> set xs. v = 0) \<Longrightarrow> sum_list xs = (0::real)"
  by (induction xs) auto

lemma cluster_mean_zero:
  assumes "unchanged_on_cluster label_map m c temp_img stat_values"
  shows "(let vals = map snd (filter (\<lambda>(l, v). l = c)
                (zip (ravel label_map)
                     (img_data (inverse_transform m 0
                        (voxelwise_stat_prop_values (masker_transform m temp_img) stat_values)))))
          in sum_list vals / real (length vals)) = 0"
proof -
  let ?vals = "map snd (filter (\<lambda>(l, v). l = c)
                (zip (ravel label_map)
                     (img_data (inverse_transform m 0
                        (voxelwise_stat_prop_values (masker_transform m temp_img) stat_values)))))"
  have "\<forall>v \<in> set ?vals. v = 0"
    using assms cluster_values_zero[of c "ravel label_map" "in_mask m" "img_data temp_img" stat_values]
    unfolding unchanged_on_cluster_def inverse_transform_def masker_transform_def
    by auto
  then have "sum_list ?vals = 0"
    by (rule sum_list_all_zero)
  then show ?thesis by (simp add: Let_def)
qed

lemma ex_get_map:
  "get_map_image (ext_fit (ex_ext vals tbl lms) ex_estimator d) ''stat''
     = Inr \<lparr>img_data = unmask (Finite 0) [True, True, False] vals, img_affine = identity_affine\<rparr>"
  by (simp add: get_map_image_def get_map_array_def ex_ext_def inverse_transform_def
        ex_estimator_def ex_masker_def in_mask_def ravel_def)

lemma ex_in_mask: "in_mask ex_masker = [True, True, False]"
  by (simp add: ex_masker_def in_mask_def ravel_def)

lemma ex_masker_labels:
  "masker_labels [[[1, 2, 0]]] = [1, 2]" "masker_labels [[[1, 0, 0]]] = [1]"
  by (simp_all add: masker_labels_def np_unique_def ravel_def)

lemma ex_Jackknife__transform:
  "Jackknife__transform (ex_ext [Finite 10, Finite 20] [] []) ''A'' [''A'', ''B'', ''C''] ex_dataset
     ex_estimator ''stat'' [Finite 10, Finite 20] ex_masker [[[1, 2, 0]]] = Inr (''A'', [0, 0])"
  by (simp add: Jackknife__transform_def ex_get_map Let_def masker_transform_def ex_in_mask
        ravel_def inverse_transform_def labels_masker_transform_def ex_masker_labels
        voxelwise_stat_prop_values_def prop_values_def)

text \<open>
  C6, as the code has it. When the re-fit without a study yields, at every in-mask
  voxel of a cluster, the same finite and non-zero value as the original value map, the
  task of that study returns, and its contribution value for that cluster is 0.
\<close>

theorem Jackknife_unchanged_cluster_zero:
  assumes "get_map_image (ext_fit ext est (ext_slice ext dset (filter (\<lambda>sid. sid \<noteq> expid) all_ids)))
             target_value_map = Inr temp_stat_img"
    and "i < length (masker_labels cluster_masker)"
    and "unchanged_on_cluster cluster_masker original_masker (masker_labels cluster_masker ! i)
           temp_stat_img stat_values"
  shows "\<exists>vals. Jackknife__transform ext expid all_ids dset est target_value_map stat_values
                   original_masker cluster_masker = Inr (expid, vals)
               \<and> length vals = length (masker_labels cluster_masker) \<and> vals ! i = 0"
  using assms(1,2) cluster_mean_zero[OF assms(3)]
  by (simp add: Jackknife__transform_def Let_def labels_masker_transform_def)

theorem Jackknife_unchanged_cluster_zero_witness:
  "get_map_image (ext_fit (ex_ext [Finite 10, Finite 20] [] []) ex_estimator
       (ext_slice (ex_ext [Finite 10, Finite 20] [] []) ex_dataset
          (filter (\<lambda>sid. sid \<noteq> ''A'') [''A'', ''B'', ''C''])))
     ''stat'' = Inr \<lparr>img_data = [Finite 10, Finite 20, Finite 0], img_affine = identity_affine\<rparr>
   \<and> (1::nat) < length (masker_labels [[[1, 2, 0]]])
   \<and> Jackknife__transform (ex_ext [Finite 10, Finite 20] [] []) ''A'' [''A'', ''B'', ''C'']
        ex_dataset ex_estimator ''stat'' [Finite 10, Finite 20] ex_masker [[[1, 2, 0]]]
        = Inr (''A'', [0, 0])"
proof -
  let ?img = "\<lparr>img_data = [Finite 10, Finite 20, Finite 0], img_affine = identity_affine\<rparr>"
  have h1: "get_map_image (ext_fit (ex_ext [Finite 10, Finite 20] [] []) ex_estimator
       (ext_slice (ex_ext [Finite 10, Finite 20] [] []) ex_dataset
          (filter (\<lambda>sid. sid \<noteq> ''A'') [''A'', ''B'', ''C''])))
     ''stat'' = Inr ?img"
    by (simp add: ex_get_map)
  have h2: "(1::nat) < length (masker_labels [[[1, 2, 0]]])"
    by (simp add: ex_masker_labels)
  have h3: "unchanged_on_cluster [[[1, 2, 0]]] ex_masker (masker_labels [[[1, 2, 0]]] ! 1)
              ?img [Finite 10, Finite 20]"
    by (simp add: unchanged_on_cluster_def ex_masker_labels ex_in_mask ravel_def same_nonzero_def)
  show ?thesis
    using h1 h2 h3 Jackknife_unchanged_cluster_zero [OF h1 h2 h3]
    by (simp add: ex_masker_labels ex_Jackknife__transform)
qed

text \<open>
  C6, as the specification words it, fails where the original value is zero: the
  re-fit without study A yields the same value map as the original, zero in the one
  voxel of cluster 1, and the contribution of A to that cluster is 1, not 0.
\<close>

theorem Jackknife_unchanged_zero_counterexample:
  "get_map_array (ext_fit (ex_ext [Finite 0, Finite 3] [] []) ex_estimator
       (ext_slice (ex_ext [Finite 0, Finite 3] [] []) ex_dataset [''B'', ''C''])) ''stat''
     = Inr [Finite 0, Finite 3]
   \<and> Jackknife__transform (ex_ext [Finite 0, Finite 3] [] []) ''A'' [''A'', ''B'', ''C''] ex_dataset
        ex_estimator ''stat'' [Finite 0, Finite 3] ex_masker [[[1, 0, 0]]] = Inr (''A'', [1])"
  by (simp add: Jackknife__transform_def ex_get_map Let_def masker_transform_def ex_in_mask
        ravel_def inverse_transform_def labels_masker_transform_def ex_masker_labels
        voxelwise_stat_prop_values_def prop_values_def)
     (simp add: get_map_array_def ex_ext_def)

section \<open>Properties of the two transforms\<close>

lemma ex_pairwise_no_dataset: "est_dataset (res_estimator ex_pairwise_result) = None"
  by (simp add: ex_pairwise_result_def)

text \<open>
  C3, as the code has it. For a result whose Estimator has no \<open>dataset\<close> attribute,
  \<open>Jackknife.transform\<close> and \<open>FocusCounter.transform\<close> raise an AttributeError, with
  no warning logged and before any per-study task is dispatched.
\<close>

theorem transform_without_dataset:
  assumes "est_dataset (res_estimator result) = None"
  shows "Jackknife_transform ext jk result =
           \<lparr>outcome = Inl (Raise AttributeError no_dataset_message), warnings = [], tasks = []\<rparr>
       \<and> FocusCounter_transform ext fc result =
           \<lparr>outcome = Inl (Raise AttributeError no_dataset_message), warnings = [], tasks = []\<rparr>"
  using assms by (simp add: Jackknife_transform_def FocusCounter_transform_def raising_def)

theorem transform_without_dataset_witness:
  "est_dataset (res_estimator ex_pairwise_result) = None
   \<and> outcome (Jackknife_transform (ex_ext [] [] []) default_jackknife ex_pairwise_result)
       = Inl (Raise AttributeError no_dataset_message)
   \<and> tasks (Jackknife_transform (ex_ext [] [] []) default_jackknife ex_pairwise_result) = []
   \<and> outcome (FocusCounter_transform (ex_ext [] [] []) default_focus_counter ex_pairwise_result)
       = Inl (Raise AttributeError no_dataset_message)
   \<and> tasks (FocusCounter_transform (ex_ext [] [] []) default_focus_counter ex_pairwise_result) = []"
  using ex_pairwise_no_dataset
        transform_without_dataset [OF ex_pairwise_no_dataset,
          of "ex_ext [] [] []" default_jackknife default_focus_counter]
  by simp

text \<open>
  C3, as the specification words it, fails: the class of the exception raised for the
  result of a pairwise Estimator is AttributeError; no ConfigurationError is raised.
\<close>

theorem transform_error_class_counterexample:
  "raised_class (Jackknife_transform (ex_ext [] [] []) default_jackknife ex_pairwise_result)
     = Some ''AttributeError''
   \<and> raised_class (Jackknife_transform (ex_ext [] [] []) default_jackknife ex_pairwise_result)
     \<noteq> Some ''ConfigurationError''
   \<and> raised_class (FocusCounter_transform (ex_ext [] [] []) default_focus_counter ex_pairwise_result)
     \<noteq> Some ''ConfigurationError''"
  by (simp add: Jackknife_transform_def FocusCounter_transform_def raising_def raised_class_def
        ex_pairwise_no_dataset)







end
